theory Spec2Isabelle
  imports Complex_Main
begin

section \<open>Request values and the JavaScript primitives the handlers use\<close>

text \<open>
  The handlers of \<^verbatim>\<open>src/auth.js\<close> read the fields of \<^verbatim>\<open>req.body\<close>, the JSON object
  parsed by \<^verbatim>\<open>express.json()\<close>. A field holds a JSON scalar or is absent
  (\<^verbatim>\<open>undefined\<close> after destructuring). Numbers are the integers; arrays and objects as
  field values are outside the model.
\<close>

datatype jsval = JUndefined | JNull | JBool bool | JNum int | JStr string

type_synonym reqbody = "string \<Rightarrow> jsval"

text \<open>\<^verbatim>\<open>!v\<close> is true exactly for the falsy values.\<close>

fun truthy :: "jsval \<Rightarrow> bool" where
  "truthy JUndefined = False"
| "truthy JNull = False"
| "truthy (JBool b) = b"
| "truthy (JNum n) = (n \<noteq> 0)"
| "truthy (JStr s) = (s \<noteq> [])"

text \<open>
  \<^verbatim>\<open>String.prototype.toLowerCase\<close> on the ASCII letters; every other character is kept.
\<close>

definition lower_char :: "char \<Rightarrow> char" where
  "lower_char c =
     (case map_of (zip ''ABCDEFGHIJKLMNOPQRSTUVWXYZ'' ''abcdefghijklmnopqrstuvwxyz'') c of
        Some d \<Rightarrow> d
      | None \<Rightarrow> c)"

definition toLowerCase :: "string \<Rightarrow> string" where
  "toLowerCase s = map lower_char s"

text \<open>
  \<^verbatim>\<open>email.toLowerCase()\<close> on a request value: only a string has the method, any other
  truthy value throws a TypeError (\<open>Inl\<close> carries \<^verbatim>\<open>error.message\<close>).
\<close>

fun js_toLowerCase :: "jsval \<Rightarrow> string + string" where
  "js_toLowerCase (JStr s) = Inr (toLowerCase s)"
| "js_toLowerCase JUndefined = Inl ''Cannot read properties of undefined (reading 'toLowerCase')''"
| "js_toLowerCase JNull = Inl ''Cannot read properties of null (reading 'toLowerCase')''"
| "js_toLowerCase _ = Inl ''email.toLowerCase is not a function''"

text \<open>Decimal rendering of a number, as \<^verbatim>\<open>Number.prototype.toString\<close> gives it for integers.\<close>

function dec_nat :: "nat \<Rightarrow> string" where
  "dec_nat n =
     (if n < 10 then [''0123456789'' ! n]
      else dec_nat (n div 10) @ [''0123456789'' ! (n mod 10)])"
  by pat_completeness auto
termination
  by (relation "measure id") auto

declare dec_nat.simps [simp del]

definition dec_int :: "int \<Rightarrow> string" where
  "dec_int i = (if i < 0 then ''-'' @ dec_nat (nat (- i)) else dec_nat (nat i))"

text \<open>\<^verbatim>\<open>otp.toString()\<close> on a request value.\<close>

fun js_toString :: "jsval \<Rightarrow> string + string" where
  "js_toString (JStr s) = Inr s"
| "js_toString (JNum n) = Inr (dec_int n)"
| "js_toString (JBool b) = Inr (if b then ''true'' else ''false'')"
| "js_toString JUndefined = Inl ''Cannot read properties of undefined (reading 'toString')''"
| "js_toString JNull = Inl ''Cannot read properties of null (reading 'toString')''"

section \<open>Responses\<close>

datatype json = JV jsval | JObject "(string \<times> json) list"

record response =
  status :: nat
  body :: "(string \<times> json) list"

text \<open>\<^verbatim>\<open>res.json(obj)\<close> answers with status 200; \<^verbatim>\<open>res.status(c).json(obj)\<close> with \<open>c\<close>.\<close>

definition res_json :: "(string \<times> json) list \<Rightarrow> response" where
  "res_json obj = \<lparr>status = 200, body = obj\<rparr>"

definition fail :: "nat \<Rightarrow> string \<Rightarrow> response" where
  "fail c msg = \<lparr>status = c, body = [(''success'', JV (JBool False)), (''error'', JV (JStr msg))]\<rparr>"

definition fail_details :: "nat \<Rightarrow> string \<Rightarrow> string \<Rightarrow> response" where
  "fail_details c msg d =
     \<lparr>status = c,
      body = [(''success'', JV (JBool False)), (''error'', JV (JStr msg)),
              (''details'', JV (JStr d))]\<rparr>"

definition succeeded :: "response \<Rightarrow> bool" where
  "succeeded r = (map_of (body r) ''success'' = Some (JV (JBool True)))"

section \<open>Ephemeral state: \<^verbatim>\<open>otpStore\<close> and \<^verbatim>\<open>sessions\<close>\<close>

record otp_entry =
  otp :: string
  expiresAt :: int

record session =
  userId :: int
  email :: string
  expires :: int
  role :: string

record state =
  otpStore :: "string \<rightharpoonup> otp_entry"
  sessions :: "string \<rightharpoonup> session"

text \<open>
  Both stores are JavaScript \<^verbatim>\<open>Map\<close>s whose keys are only ever strings. \<^verbatim>\<open>Map.get\<close> and
  \<^verbatim>\<open>Map.delete\<close> compare keys without coercion, so a key that is not a string matches
  nothing.
\<close>

definition map_get :: "(string \<rightharpoonup> 'a) \<Rightarrow> jsval \<Rightarrow> 'a option" where
  "map_get m k = (case k of JStr s \<Rightarrow> m s | _ \<Rightarrow> None)"

definition map_delete :: "(string \<rightharpoonup> 'a) \<Rightarrow> jsval \<Rightarrow> (string \<rightharpoonup> 'a)" where
  "map_delete m k = (case k of JStr s \<Rightarrow> m(s := None) | _ \<Rightarrow> m)"

section \<open>External collaborators\<close>

record user =
  uid :: int
  FullName :: string
  Email :: string
  Password :: string
  user_role :: string

text \<open>The \<^verbatim>\<open>{ data, error }\<close> pair of a Supabase \<^verbatim>\<open>select('*').eq('Email', e).single()\<close>.\<close>

record select_result =
  sel_data :: "user option"
  sel_error :: "string option"

text \<open>
  What one handler invocation observes of the outside world: the clock, the random
  generator, the user table, bcrypt and the mail transporter. A sum \<open>string + 'a\<close> is a
  promise that rejects (\<open>Inl\<close> the message) or resolves; \<open>db_update\<close> gives the \<^verbatim>\<open>error\<close>
  of the update (\<open>None\<close> when it succeeded); \<open>sendMail to code\<close> gives the message of
  the error \<^verbatim>\<open>transporter.sendMail\<close> throws (\<open>None\<close> when the mail was sent); \<open>transporter\<close> tells
  whether the module-level \<^verbatim>\<open>transporter\<close> is configured (not \<^verbatim>\<open>null\<close>).
\<close>

record env =
  now :: int
  random :: real
  random_suffix :: string
  db_select :: "string \<Rightarrow> select_result"
  db_update :: "string \<Rightarrow> string \<Rightarrow> string option"
  bcrypt_hash :: "jsval \<Rightarrow> string + string"
  bcrypt_compare :: "jsval \<Rightarrow> string \<Rightarrow> string + bool"
  transporter :: bool
  sendMail :: "jsval \<Rightarrow> string \<Rightarrow> string option"

text \<open>\<^verbatim>\<open>typeof v\<close> on a request value.\<close>

fun js_typeof :: "jsval \<Rightarrow> string" where
  "js_typeof JUndefined = ''undefined''"
| "js_typeof JNull = ''object''"
| "js_typeof (JBool b) = ''boolean''"
| "js_typeof (JNum n) = ''number''"
| "js_typeof (JStr s) = ''string''"

text \<open>
  The \<^verbatim>\<open>compare(s, hash)\<close> of the bcryptjs library that \<^verbatim>\<open>src/auth.js\<close> imports checks its
  arguments before hashing: unless both are strings the promise rejects with
  \<^verbatim>\<open>Error("Illegal arguments: " + typeof s + ", " + typeof hash)\<close>. The stored hash is a
  string; \<open>matches\<close> stands for the comparison of a string password with it.
\<close>

definition bcryptjs_compare :: "(string \<Rightarrow> string \<Rightarrow> bool) \<Rightarrow> jsval \<Rightarrow> string \<Rightarrow> string + bool" where
  "bcryptjs_compare matches p h =
     (case p of
        JStr s \<Rightarrow> Inr (matches s h)
      | _ \<Rightarrow> Inl (''Illegal arguments: '' @ js_typeof p @ '', string''))"

definition OTP_EXPIRY_MINUTES :: int where
  "OTP_EXPIRY_MINUTES = 10"

definition SESSION_EXPIRY_HOURS :: int where
  "SESSION_EXPIRY_HOURS = 24"

section \<open>Sessions: login, validate-session, logout\<close>

text \<open>
  \<^verbatim>\<open>'session_' + Date.now() + '_' + Math.random().toString(36).substr(2, 9)\<close>; the
  base-36 suffix drawn from \<^verbatim>\<open>Math.random()\<close> is \<open>random_suffix\<close>.
\<close>

definition generateSessionId :: "env \<Rightarrow> string" where
  "generateSessionId ev = ''session_'' @ dec_int (now ev) @ ''_'' @ random_suffix ev"

definition login :: "env \<Rightarrow> reqbody \<Rightarrow> state \<Rightarrow> response \<times> state" where
  "login ev req st =
     (let emailv = req ''email''; password = req ''password'' in
      if \<not> truthy emailv \<or> \<not> truthy password
      then (fail 400 ''Email and password are required'', st)
      else case js_toLowerCase emailv of
        Inl msg \<Rightarrow> (fail_details 500 ''Login failed'' msg, st)
      | Inr normalizedEmail \<Rightarrow>
          (let r = db_select ev normalizedEmail in
           case (sel_error r, sel_data r) of
             (None, Some u) \<Rightarrow>
               (case bcrypt_compare ev password (Password u) of
                  Inl msg \<Rightarrow> (fail_details 500 ''Login failed'' msg, st)
                | Inr isValid \<Rightarrow>
                    if \<not> isValid
                    then (fail 401 ''Invalid email or password'', st)
                    else
                      (let sessionId = generateSessionId ev;
                           expiresAtv = now ev + SESSION_EXPIRY_HOURS * 60 * 60 * 1000
                       in (res_json
                             [(''success'', JV (JBool True)),
                              (''message'', JV (JStr ''Login successful'')),
                              (''user'', JObject
                                 [(''id'', JV (JNum (uid u))),
                                  (''FullName'', JV (JStr (FullName u))),
                                  (''Email'', JV (JStr (Email u))),
                                  (''role'', JV (JStr (user_role u)))]),
                              (''sessionId'', JV (JStr sessionId)),
                              (''expiresAt'', JV (JNum expiresAtv))],
                           st\<lparr>sessions := (sessions st)(sessionId \<mapsto>
                                \<lparr>userId = uid u, email = normalizedEmail,
                                 expires = expiresAtv, role = user_role u\<rparr>)\<rparr>)))
           | _ \<Rightarrow> (fail 401 ''Invalid email or password'', st)))"

definition validate_session :: "env \<Rightarrow> reqbody \<Rightarrow> state \<Rightarrow> response \<times> state" where
  "validate_session ev req st =
     (let sessionId = req ''sessionId'' in
      if \<not> truthy sessionId
      then (fail 400 ''Session ID required'', st)
      else case map_get (sessions st) sessionId of
        None \<Rightarrow> (fail 401 ''Invalid session'', st)
      | Some s \<Rightarrow>
          if now ev > expires s
          then (fail 401 ''Session expired'',
                st\<lparr>sessions := map_delete (sessions st) sessionId\<rparr>)
          else (res_json
                  [(''success'', JV (JBool True)),
                   (''user'', JObject
                      [(''userId'', JV (JNum (userId s))),
                       (''email'', JV (JStr (email s))),
                       (''role'', JV (JStr (role s)))]),
                   (''sessionId'', JV sessionId),
                   (''expiresAt'', JV (JNum (expires s)))],
                st))"

definition logout :: "env \<Rightarrow> reqbody \<Rightarrow> state \<Rightarrow> response \<times> state" where
  "logout ev req st =
     (let sessionId = req ''sessionId'' in
      (res_json [(''success'', JV (JBool True)),
                 (''message'', JV (JStr ''Logged out successfully''))],
       if truthy sessionId
       then st\<lparr>sessions := map_delete (sessions st) sessionId\<rparr>
       else st))"

section \<open>One-time passcodes: send-otp, verify-otp, reset-password\<close>

text \<open>\<^verbatim>\<open>Math.floor(100000 + Math.random() * 900000).toString()\<close>\<close>

definition generateOtp :: "env \<Rightarrow> string" where
  "generateOtp ev = dec_int \<lfloor>100000 + random ev * 900000\<rfloor>"

definition expiresIn :: string where
  "expiresIn = dec_int OTP_EXPIRY_MINUTES @ '' minutes''"

definition send_otp :: "env \<Rightarrow> reqbody \<Rightarrow> state \<Rightarrow> response \<times> state" where
  "send_otp ev req st =
     (let emailv = req ''email'' in
      if \<not> truthy emailv
      then (fail 400 ''Email required'', st)
      else case js_toLowerCase emailv of
        Inl msg \<Rightarrow> (fail_details 500 ''Internal server error'' msg, st)
      | Inr normalizedEmail \<Rightarrow>
          (let r = db_select ev normalizedEmail in
           case (sel_error r, sel_data r) of
             (None, Some u) \<Rightarrow>
               (let code = generateOtp ev;
                    expiresAtv = now ev + OTP_EXPIRY_MINUTES * 60 * 1000;
                    st' = st\<lparr>otpStore := (otpStore st)(normalizedEmail \<mapsto>
                             \<lparr>otp = code, expiresAt = expiresAtv\<rparr>)\<rparr>;
                    mock = res_json
                             [(''success'', JV (JBool True)),
                              (''message'', JV (JStr ''OTP generated (mock mode)'')),
                              (''otp'', JV (JStr code)),
                              (''service'', JV (JStr ''Mock'')),
                              (''expiresIn'', JV (JStr expiresIn)),
                              (''note'', JV (JStr
                                 ''Email not configured - check this response for your OTP''))]
                in if transporter ev
                   then (case sendMail ev emailv code of
                           None \<Rightarrow>
                             (res_json
                                [(''success'', JV (JBool True)),
                                 (''message'', JV (JStr ''OTP sent to your email'')),
                                 (''service'', JV (JStr ''Email'')),
                                 (''expiresIn'', JV (JStr expiresIn))],
                              st')
                         | Some emailError \<Rightarrow> (mock, st'))
                   else (mock, st'))
           | _ \<Rightarrow> (fail 404 ''No account found with this email'', st)))"

definition verify_otp :: "env \<Rightarrow> reqbody \<Rightarrow> state \<Rightarrow> response \<times> state" where
  "verify_otp ev req st =
     (let emailv = req ''email''; otpv = req ''otp'' in
      if \<not> truthy emailv \<or> \<not> truthy otpv
      then (fail 400 ''Email and OTP are required'', st)
      else case js_toLowerCase emailv of
        Inl msg \<Rightarrow> (fail_details 500 ''Internal server error'' msg, st)
      | Inr normalizedEmail \<Rightarrow>
          (case otpStore st normalizedEmail of
             None \<Rightarrow> (fail 400 ''No OTP found. Please request a new one.'', st)
           | Some storedData \<Rightarrow>
               if now ev > expiresAt storedData
               then (fail 400 ''OTP has expired. Please request a new one.'',
                     st\<lparr>otpStore := (otpStore st)(normalizedEmail := None)\<rparr>)
               else case js_toString otpv of
                 Inl msg \<Rightarrow> (fail_details 500 ''Internal server error'' msg, st)
               | Inr submitted \<Rightarrow>
                   if otp storedData \<noteq> submitted
                   then (fail 400 ''Invalid OTP. Please try again.'', st)
                   else (res_json
                           [(''success'', JV (JBool True)),
                            (''message'', JV (JStr ''OTP verified successfully''))],
                         st\<lparr>otpStore := (otpStore st)(normalizedEmail := None)\<rparr>)))"

text \<open>
  In \<^verbatim>\<open>!storedData || storedData.otp !== otp.toString()\<close> the right operand is evaluated
  only when an entry exists.
\<close>

definition reset_password :: "env \<Rightarrow> reqbody \<Rightarrow> state \<Rightarrow> response \<times> state" where
  "reset_password ev req st =
     (let emailv = req ''email''; otpv = req ''otp''; newPassword = req ''newPassword'' in
      if \<not> truthy emailv \<or> \<not> truthy otpv \<or> \<not> truthy newPassword
      then (fail 400 ''Email, OTP, and new password are required'', st)
      else case js_toLowerCase emailv of
        Inl msg \<Rightarrow> (fail_details 500 ''Failed to reset password'' msg, st)
      | Inr normalizedEmail \<Rightarrow>
          (case otpStore st normalizedEmail of
             None \<Rightarrow> (fail 400 ''Invalid OTP'', st)
           | Some storedData \<Rightarrow>
               (case js_toString otpv of
                  Inl msg \<Rightarrow> (fail_details 500 ''Failed to reset password'' msg, st)
                | Inr submitted \<Rightarrow>
                    if otp storedData \<noteq> submitted
                    then (fail 400 ''Invalid OTP'', st)
                    else if now ev > expiresAt storedData
                    then (fail 400 ''OTP has expired'',
                          st\<lparr>otpStore := (otpStore st)(normalizedEmail := None)\<rparr>)
                    else
                      (let r = db_select ev normalizedEmail in
                       case (sel_error r, sel_data r) of
                         (None, Some u) \<Rightarrow>
                           (case bcrypt_hash ev newPassword of
                              Inl msg \<Rightarrow> (fail_details 500 ''Failed to reset password'' msg, st)
                            | Inr hashedPassword \<Rightarrow>
                                (case db_update ev normalizedEmail hashedPassword of
                                   Some updateError \<Rightarrow>
                                     (fail_details 500 ''Failed to update password in database''
                                        updateError, st)
                                 | None \<Rightarrow>
                                     (res_json
                                        [(''success'', JV (JBool True)),
                                         (''message'', JV (JStr ''Password reset successful''))],
                                      st\<lparr>otpStore := (otpStore st)(normalizedEmail := None)\<rparr>)))
                       | _ \<Rightarrow> (fail 404 ''User not found'', st)))))"

section \<open>The periodic sweep\<close>

text \<open>The \<^verbatim>\<open>setInterval\<close> callback, run with \<open>t\<close> the value of \<^verbatim>\<open>Date.now()\<close>.\<close>

definition sweep :: "int \<Rightarrow> state \<Rightarrow> state" where
  "sweep t st =
     \<lparr>otpStore = (\<lambda>k. case otpStore st k of
                       None \<Rightarrow> None
                     | Some d \<Rightarrow> if t > expiresAt d then None else Some d),
      sessions = (\<lambda>k. case sessions st k of
                       None \<Rightarrow> None
                     | Some s \<Rightarrow> if t > expires s then None else Some s)\<rparr>"

section \<open>Sequences of requests\<close>

text \<open>
  The routes of the application and the timer tick. Requests are handled one at a time
  against the shared stores; each comes with what it observes of the outside world.
\<close>

datatype request =
    Login reqbody
  | ValidateSession reqbody
  | Logout reqbody
  | SendOtp reqbody
  | VerifyOtp reqbody
  | ResetPassword reqbody
  | Sweep

fun handle :: "env \<Rightarrow> request \<Rightarrow> state \<Rightarrow> state" where
  "handle ev (Login req) st = snd (login ev req st)"
| "handle ev (ValidateSession req) st = snd (validate_session ev req st)"
| "handle ev (Logout req) st = snd (logout ev req st)"
| "handle ev (SendOtp req) st = snd (send_otp ev req st)"
| "handle ev (VerifyOtp req) st = snd (verify_otp ev req st)"
| "handle ev (ResetPassword req) st = snd (reset_password ev req st)"
| "handle ev Sweep st = sweep (now ev) st"

fun run :: "(env \<times> request) list \<Rightarrow> state \<Rightarrow> state" where
  "run [] st = st"
| "run ((ev, r) # rs) st = run rs (handle ev r st)"

text \<open>A login whose generated session id is \<open>sid\<close>.\<close>

fun mints :: "string \<Rightarrow> env \<times> request \<Rightarrow> bool" where
  "mints sid (ev, Login req) = (generateSessionId ev = sid)"
| "mints sid (ev, _) = False"

section \<open>Concrete requests, environments and states\<close>

text \<open>A request body given by its fields.\<close>

definition mk_req :: "(string \<times> jsval) list \<Rightarrow> reqbody" where
  "mk_req kvs k = (case map_of kvs k of Some v \<Rightarrow> v | None \<Rightarrow> JUndefined)"

definition ann :: user where
  "ann = \<lparr>uid = 7, FullName = ''Ann'', Email = ''a@x.com'', Password = ''$2a$12$hash'',
          user_role = ''user''\<rparr>"

text \<open>
  An environment at time 1000 in which \<^verbatim>\<open>a@x.com\<close> is the only registered account, no
  mail transporter is configured, \<^verbatim>\<open>Math.random()\<close> returns 0 and only the password
  \<^verbatim>\<open>secret1\<close> matches the stored hash.
\<close>

definition ev0 :: env where
  "ev0 = \<lparr>now = 1000, random = 0, random_suffix = ''k3j9x0q1z'',
          db_select = (\<lambda>e. if e = ''a@x.com''
                            then \<lparr>sel_data = Some ann, sel_error = None\<rparr>
                            else \<lparr>sel_data = None, sel_error = Some ''no rows returned''\<rparr>),
          db_update = (\<lambda>e h. None),
          bcrypt_hash = (\<lambda>p. Inr ''$2a$12$fresh''),
          bcrypt_compare = (\<lambda>p h. Inr (p = JStr ''secret1'')),
          transporter = False,
          sendMail = (\<lambda>to code. None)\<rparr>"

definition st_empty :: state where
  "st_empty = \<lparr>otpStore = Map.empty, sessions = Map.empty\<rparr>"

text \<open>A store holding the code \<^verbatim>\<open>123456\<close> for \<^verbatim>\<open>a@x.com\<close>, expiring at time \<open>t\<close>.\<close>

definition st_code :: "int \<Rightarrow> state" where
  "st_code t = \<lparr>otpStore = [''a@x.com'' \<mapsto> \<lparr>otp = ''123456'', expiresAt = t\<rparr>],
                sessions = Map.empty\<rparr>"

text \<open>A store holding the session \<^verbatim>\<open>s1\<close> of \<^verbatim>\<open>a@x.com\<close>, expiring at time \<open>t\<close>.\<close>

definition st_session :: "int \<Rightarrow> state" where
  "st_session t = \<lparr>otpStore = Map.empty,
                   sessions = [''s1'' \<mapsto> \<lparr>userId = 7, email = ''a@x.com'', expires = t,
                                         role = ''user''\<rparr>]\<rparr>"

text \<open>The environment \<open>ev0\<close> with the password comparison done as bcryptjs does it.\<close>

definition ev_bcryptjs :: env where
  "ev_bcryptjs = ev0\<lparr>bcrypt_compare := bcryptjs_compare (\<lambda>s h. s = ''secret1'')\<rparr>"

section \<open>Basic facts\<close>

lemma truthy_toString: "truthy v \<Longrightarrow> \<exists>s. js_toString v = Inr s"
  by (cases v) auto

lemma lower_ann: "toLowerCase ''A@x.com'' = ''a@x.com''"
  by (simp add: toLowerCase_def lower_char_def)

section \<open>verify-otp\<close>

text \<open>
  C1. For a non-empty string email and a submitted (truthy) code, verify-otp looks the
  entry up under the lower-cased email. With no entry it answers "No OTP found" and
  changes nothing; with an entry whose \<open>expiresAt\<close> is before \<open>now\<close> it answers "OTP has
  expired" and deletes the entry; with an unexpired entry and a different code it answers
  "Invalid OTP" and keeps the entry; with an unexpired entry and the matching code it
  answers success and deletes the entry, so that verifying again with the same request,
  at any later time, answers "No OTP found".
\<close>

theorem verify_otp_cases:
  assumes "req ''email'' = JStr e" and "e \<noteq> []" and "truthy (req ''otp'')"
  shows "(otpStore st (toLowerCase e) = None \<longrightarrow>
            verify_otp ev req st = (fail 400 ''No OTP found. Please request a new one.'', st))
       \<and> (\<forall>d. otpStore st (toLowerCase e) = Some d \<and> expiresAt d < now ev \<longrightarrow>
            verify_otp ev req st =
              (fail 400 ''OTP has expired. Please request a new one.'',
               st\<lparr>otpStore := (otpStore st)(toLowerCase e := None)\<rparr>))
       \<and> (\<forall>d. otpStore st (toLowerCase e) = Some d \<and> \<not> expiresAt d < now ev
              \<and> js_toString (req ''otp'') \<noteq> Inr (otp d) \<longrightarrow>
            verify_otp ev req st = (fail 400 ''Invalid OTP. Please try again.'', st))
       \<and> (\<forall>d. otpStore st (toLowerCase e) = Some d \<and> \<not> expiresAt d < now ev
              \<and> js_toString (req ''otp'') = Inr (otp d) \<longrightarrow>
            verify_otp ev req st =
              (res_json [(''success'', JV (JBool True)),
                         (''message'', JV (JStr ''OTP verified successfully''))],
               st\<lparr>otpStore := (otpStore st)(toLowerCase e := None)\<rparr>)
            \<and> (\<forall>ev'. verify_otp ev' req (st\<lparr>otpStore := (otpStore st)(toLowerCase e := None)\<rparr>) =
                  (fail 400 ''No OTP found. Please request a new one.'',
                   st\<lparr>otpStore := (otpStore st)(toLowerCase e := None)\<rparr>)))"
proof -
  obtain s where s: "js_toString (req ''otp'') = Inr s"
    using truthy_toString [OF assms(3)] by blast
  show ?thesis
    using assms s by (auto simp: verify_otp_def)
qed

theorem verify_otp_cases_witness:
  "verify_otp ev0 (mk_req [(''email'', JStr ''A@x.com''), (''otp'', JStr ''123456'')]) st_empty =
     (fail 400 ''No OTP found. Please request a new one.'', st_empty)
   \<and> verify_otp ev0 (mk_req [(''email'', JStr ''A@x.com''), (''otp'', JStr ''123456'')]) (st_code 999) =
     (fail 400 ''OTP has expired. Please request a new one.'',
      (st_code 999)\<lparr>otpStore := (otpStore (st_code 999))(''a@x.com'' := None)\<rparr>)
   \<and> verify_otp ev0 (mk_req [(''email'', JStr ''A@x.com''), (''otp'', JStr ''000000'')]) (st_code 1000) =
     (fail 400 ''Invalid OTP. Please try again.'', st_code 1000)
   \<and> verify_otp ev0 (mk_req [(''email'', JStr ''A@x.com''), (''otp'', JNum 123456)]) (st_code 1000) =
     (res_json [(''success'', JV (JBool True)),
                (''message'', JV (JStr ''OTP verified successfully''))],
      (st_code 1000)\<lparr>otpStore := (otpStore (st_code 1000))(''a@x.com'' := None)\<rparr>)
   \<and> verify_otp ev0 (mk_req [(''email'', JStr ''A@x.com''), (''otp'', JNum 123456)])
        ((st_code 1000)\<lparr>otpStore := (otpStore (st_code 1000))(''a@x.com'' := None)\<rparr>) =
     (fail 400 ''No OTP found. Please request a new one.'',
      (st_code 1000)\<lparr>otpStore := (otpStore (st_code 1000))(''a@x.com'' := None)\<rparr>)"
proof -
  have num: "js_toString (JNum 123456) = Inr ''123456''"
    by (simp add: dec_int_def dec_nat.simps)
  note T1 = verify_otp_cases [of "mk_req [(''email'', JStr ''A@x.com''), (''otp'', JStr ''123456'')]"
      "''A@x.com''" _ ev0, unfolded lower_ann]
  note T2 = verify_otp_cases [of "mk_req [(''email'', JStr ''A@x.com''), (''otp'', JStr ''000000'')]"
      "''A@x.com''" "st_code 1000" ev0, unfolded lower_ann]
  note T3 = verify_otp_cases [of "mk_req [(''email'', JStr ''A@x.com''), (''otp'', JNum 123456)]"
      "''A@x.com''" "st_code 1000" ev0, unfolded lower_ann]
  have a: "verify_otp ev0 (mk_req [(''email'', JStr ''A@x.com''), (''otp'', JStr ''123456'')]) st_empty =
     (fail 400 ''No OTP found. Please request a new one.'', st_empty)"
    using T1 [of st_empty] by (simp add: mk_req_def st_empty_def)
  have b: "verify_otp ev0 (mk_req [(''email'', JStr ''A@x.com''), (''otp'', JStr ''123456'')]) (st_code 999) =
     (fail 400 ''OTP has expired. Please request a new one.'',
      (st_code 999)\<lparr>otpStore := (otpStore (st_code 999))(''a@x.com'' := None)\<rparr>)"
    using T1 [of "st_code 999"] by (simp add: mk_req_def st_code_def ev0_def)
  have c: "verify_otp ev0 (mk_req [(''email'', JStr ''A@x.com''), (''otp'', JStr ''000000'')]) (st_code 1000) =
     (fail 400 ''Invalid OTP. Please try again.'', st_code 1000)"
    using T2 by (simp add: mk_req_def st_code_def ev0_def)
  have d: "verify_otp ev0 (mk_req [(''email'', JStr ''A@x.com''), (''otp'', JNum 123456)]) (st_code 1000) =
     (res_json [(''success'', JV (JBool True)),
                (''message'', JV (JStr ''OTP verified successfully''))],
      (st_code 1000)\<lparr>otpStore := (otpStore (st_code 1000))(''a@x.com'' := None)\<rparr>)
   \<and> verify_otp ev0 (mk_req [(''email'', JStr ''A@x.com''), (''otp'', JNum 123456)])
        ((st_code 1000)\<lparr>otpStore := (otpStore (st_code 1000))(''a@x.com'' := None)\<rparr>) =
     (fail 400 ''No OTP found. Please request a new one.'',
      (st_code 1000)\<lparr>otpStore := (otpStore (st_code 1000))(''a@x.com'' := None)\<rparr>)"
    using T3 num by (simp add: mk_req_def st_code_def ev0_def)
  from a b c d show ?thesis by blast
qed

section \<open>reset-password: how the submitted code is checked\<close>

text \<open>
  C10. In reset-password the comparison of the code comes before the expiry check. For an
  email whose stored entry is expired, a request with a different code is answered
  "Invalid OTP" and the expired entry stays in the store, while the same request to
  verify-otp is answered "OTP has expired" and deletes it; a request with the matching
  code is answered "OTP has expired" and the entry is deleted.
\<close>

theorem reset_password_match_before_expiry:
  assumes "req ''email'' = JStr e" and "e \<noteq> []" and "truthy (req ''otp'')"
    and "truthy (req ''newPassword'')"
    and "otpStore st (toLowerCase e) = Some d" and "expiresAt d < now ev"
  shows "(js_toString (req ''otp'') \<noteq> Inr (otp d) \<longrightarrow>
            reset_password ev req st = (fail 400 ''Invalid OTP'', st)
          \<and> verify_otp ev req st =
              (fail 400 ''OTP has expired. Please request a new one.'',
               st\<lparr>otpStore := (otpStore st)(toLowerCase e := None)\<rparr>))
       \<and> (js_toString (req ''otp'') = Inr (otp d) \<longrightarrow>
            reset_password ev req st =
              (fail 400 ''OTP has expired'',
               st\<lparr>otpStore := (otpStore st)(toLowerCase e := None)\<rparr>))"
proof -
  obtain s where s: "js_toString (req ''otp'') = Inr s"
    using truthy_toString [OF assms(3)] by blast
  show ?thesis
    using assms s by (auto simp: reset_password_def verify_otp_def)
qed

theorem reset_password_match_before_expiry_witness:
  "reset_password ev0
      (mk_req [(''email'', JStr ''A@x.com''), (''otp'', JStr ''000000''),
               (''newPassword'', JStr ''newpass1'')]) (st_code 999) =
     (fail 400 ''Invalid OTP'', st_code 999)
   \<and> verify_otp ev0
      (mk_req [(''email'', JStr ''A@x.com''), (''otp'', JStr ''000000''),
               (''newPassword'', JStr ''newpass1'')]) (st_code 999) =
     (fail 400 ''OTP has expired. Please request a new one.'',
      (st_code 999)\<lparr>otpStore := (otpStore (st_code 999))(''a@x.com'' := None)\<rparr>)
   \<and> reset_password ev0
      (mk_req [(''email'', JStr ''A@x.com''), (''otp'', JStr ''123456''),
               (''newPassword'', JStr ''newpass1'')]) (st_code 999) =
     (fail 400 ''OTP has expired'',
      (st_code 999)\<lparr>otpStore := (otpStore (st_code 999))(''a@x.com'' := None)\<rparr>)"
proof -
  note T = reset_password_match_before_expiry [of _ "''A@x.com''" "st_code 999"
      "\<lparr>otp = ''123456'', expiresAt = 999\<rparr>" ev0, unfolded lower_ann]
  have a: "reset_password ev0
      (mk_req [(''email'', JStr ''A@x.com''), (''otp'', JStr ''000000''),
               (''newPassword'', JStr ''newpass1'')]) (st_code 999) =
     (fail 400 ''Invalid OTP'', st_code 999)
   \<and> verify_otp ev0
      (mk_req [(''email'', JStr ''A@x.com''), (''otp'', JStr ''000000''),
               (''newPassword'', JStr ''newpass1'')]) (st_code 999) =
     (fail 400 ''OTP has expired. Please request a new one.'',
      (st_code 999)\<lparr>otpStore := (otpStore (st_code 999))(''a@x.com'' := None)\<rparr>)"
    using T [of "mk_req [(''email'', JStr ''A@x.com''), (''otp'', JStr ''000000''),
               (''newPassword'', JStr ''newpass1'')]"]
    by (simp add: mk_req_def st_code_def ev0_def)
  have b: "reset_password ev0
      (mk_req [(''email'', JStr ''A@x.com''), (''otp'', JStr ''123456''),
               (''newPassword'', JStr ''newpass1'')]) (st_code 999) =
     (fail 400 ''OTP has expired'',
      (st_code 999)\<lparr>otpStore := (otpStore (st_code 999))(''a@x.com'' := None)\<rparr>)"
    using T [of "mk_req [(''email'', JStr ''A@x.com''), (''otp'', JStr ''123456''),
               (''newPassword'', JStr ''newpass1'')]"]
    by (simp add: mk_req_def st_code_def ev0_def)
  from a b show ?thesis by blast
qed

text \<open>
  C3, as stated, fails: reset-password gives one and the same answer, 400 "Invalid OTP",
  when no code is on record and when the code on record differs from the submitted one.
\<close>

theorem reset_password_merges_missing_and_mismatch:
  "otpStore st_empty ''a@x.com'' = None
   \<and> otpStore (st_code 2000) ''a@x.com'' = Some \<lparr>otp = ''123456'', expiresAt = 2000\<rparr>
   \<and> fst (reset_password ev0
        (mk_req [(''email'', JStr ''a@x.com''), (''otp'', JStr ''000000''),
                 (''newPassword'', JStr ''newpass1'')]) st_empty) = fail 400 ''Invalid OTP''
   \<and> fst (reset_password ev0
        (mk_req [(''email'', JStr ''a@x.com''), (''otp'', JStr ''000000''),
                 (''newPassword'', JStr ''newpass1'')]) (st_code 2000)) = fail 400 ''Invalid OTP''"
  by (simp add: reset_password_def mk_req_def st_empty_def st_code_def ev0_def toLowerCase_def
      lower_char_def)

text \<open>
  C3, amended. reset-password re-validates the submitted code and reports two distinct
  rejections: "Invalid OTP" when no code is on record or the code on record differs
  (the store is left as it is), and "OTP has expired" when the code matches an entry
  past its expiry (the entry is deleted).
\<close>

theorem reset_password_rejections:
  assumes "req ''email'' = JStr e" and "e \<noteq> []" and "truthy (req ''otp'')"
    and "truthy (req ''newPassword'')"
  shows "(otpStore st (toLowerCase e) = None \<longrightarrow>
            reset_password ev req st = (fail 400 ''Invalid OTP'', st))
       \<and> (\<forall>d. otpStore st (toLowerCase e) = Some d
              \<and> js_toString (req ''otp'') \<noteq> Inr (otp d) \<longrightarrow>
            reset_password ev req st = (fail 400 ''Invalid OTP'', st))
       \<and> (\<forall>d. otpStore st (toLowerCase e) = Some d
              \<and> js_toString (req ''otp'') = Inr (otp d) \<and> expiresAt d < now ev \<longrightarrow>
            reset_password ev req st =
              (fail 400 ''OTP has expired'',
               st\<lparr>otpStore := (otpStore st)(toLowerCase e := None)\<rparr>))
       \<and> fail 400 ''Invalid OTP'' \<noteq> fail 400 ''OTP has expired''"
proof -
  obtain s where s: "js_toString (req ''otp'') = Inr s"
    using truthy_toString [OF assms(3)] by blast
  show ?thesis
    using assms s by (auto simp: reset_password_def fail_def)
qed

theorem reset_password_rejections_witness:
  "reset_password ev0
      (mk_req [(''email'', JStr ''A@x.com''), (''otp'', JStr ''123456''),
               (''newPassword'', JStr ''newpass1'')]) st_empty =
     (fail 400 ''Invalid OTP'', st_empty)
   \<and> reset_password ev0
      (mk_req [(''email'', JStr ''A@x.com''), (''otp'', JNum 654321),
               (''newPassword'', JStr ''newpass1'')]) (st_code 2000) =
     (fail 400 ''Invalid OTP'', st_code 2000)
   \<and> reset_password ev0
      (mk_req [(''email'', JStr ''A@x.com''), (''otp'', JNum 123456),
               (''newPassword'', JStr ''newpass1'')]) (st_code 10) =
     (fail 400 ''OTP has expired'',
      (st_code 10)\<lparr>otpStore := (otpStore (st_code 10))(''a@x.com'' := None)\<rparr>)"
proof -
  have n1: "js_toString (JNum 654321) = Inr ''654321''"
    by (simp add: dec_int_def dec_nat.simps)
  have n2: "js_toString (JNum 123456) = Inr ''123456''"
    by (simp add: dec_int_def dec_nat.simps)
  note T = reset_password_rejections [of _ "''A@x.com''" _ ev0, unfolded lower_ann]
  have a: "reset_password ev0
      (mk_req [(''email'', JStr ''A@x.com''), (''otp'', JStr ''123456''),
               (''newPassword'', JStr ''newpass1'')]) st_empty =
     (fail 400 ''Invalid OTP'', st_empty)"
    using T [of "mk_req [(''email'', JStr ''A@x.com''), (''otp'', JStr ''123456''),
               (''newPassword'', JStr ''newpass1'')]" st_empty]
    by (simp add: mk_req_def st_empty_def)
  have b: "reset_password ev0
      (mk_req [(''email'', JStr ''A@x.com''), (''otp'', JNum 654321),
               (''newPassword'', JStr ''newpass1'')]) (st_code 2000) =
     (fail 400 ''Invalid OTP'', st_code 2000)"
    using T [of "mk_req [(''email'', JStr ''A@x.com''), (''otp'', JNum 654321),
               (''newPassword'', JStr ''newpass1'')]" "st_code 2000"] n1
    by (simp add: mk_req_def st_code_def)
  have c: "reset_password ev0
      (mk_req [(''email'', JStr ''A@x.com''), (''otp'', JNum 123456),
               (''newPassword'', JStr ''newpass1'')]) (st_code 10) =
     (fail 400 ''OTP has expired'',
      (st_code 10)\<lparr>otpStore := (otpStore (st_code 10))(''a@x.com'' := None)\<rparr>)"
    using T [of "mk_req [(''email'', JStr ''A@x.com''), (''otp'', JNum 123456),
               (''newPassword'', JStr ''newpass1'')]" "st_code 10"] n2
    by (simp add: mk_req_def st_code_def ev0_def)
  from a b c show ?thesis by blast
qed

section \<open>reset-password: the entry is consumed after the password is stored\<close>

text \<open>
  C2. When reset-password reaches the update of the user table (a well-formed request,
  a matching unexpired code, a known account, a computed hash) and the update reports an
  error, the answer is the 500 store error and both stores are left exactly as they
  were, so the entry is still there for a retry. Conversely an unexpired entry
  disappears from the store only in a run whose update succeeded, which is then answered
  with success.
\<close>

theorem reset_password_update_failure_keeps_otp:
  "(\<forall>e d u h msg.
       req ''email'' = JStr e \<and> e \<noteq> [] \<and> truthy (req ''otp'') \<and> truthy (req ''newPassword'')
       \<and> otpStore st (toLowerCase e) = Some d \<and> js_toString (req ''otp'') = Inr (otp d)
       \<and> \<not> now ev > expiresAt d
       \<and> sel_error (db_select ev (toLowerCase e)) = None
       \<and> sel_data (db_select ev (toLowerCase e)) = Some u
       \<and> bcrypt_hash ev (req ''newPassword'') = Inr h
       \<and> db_update ev (toLowerCase e) h = Some msg
     \<longrightarrow> reset_password ev req st =
           (fail_details 500 ''Failed to update password in database'' msg, st))
   \<and> (\<forall>e d.
       req ''email'' = JStr e \<and> otpStore st (toLowerCase e) = Some d \<and> \<not> now ev > expiresAt d
       \<and> otpStore (snd (reset_password ev req st)) (toLowerCase e) \<noteq> Some d
     \<longrightarrow> (\<exists>h. bcrypt_hash ev (req ''newPassword'') = Inr h
              \<and> db_update ev (toLowerCase e) h = None)
         \<and> fst (reset_password ev req st) =
             res_json [(''success'', JV (JBool True)),
                       (''message'', JV (JStr ''Password reset successful''))])"
proof (intro conjI allI impI)
  fix e d u h msg
  assume "req ''email'' = JStr e \<and> e \<noteq> [] \<and> truthy (req ''otp'') \<and> truthy (req ''newPassword'')
       \<and> otpStore st (toLowerCase e) = Some d \<and> js_toString (req ''otp'') = Inr (otp d)
       \<and> \<not> now ev > expiresAt d
       \<and> sel_error (db_select ev (toLowerCase e)) = None
       \<and> sel_data (db_select ev (toLowerCase e)) = Some u
       \<and> bcrypt_hash ev (req ''newPassword'') = Inr h
       \<and> db_update ev (toLowerCase e) h = Some msg"
  then show "reset_password ev req st =
           (fail_details 500 ''Failed to update password in database'' msg, st)"
    by (simp add: reset_password_def)
next
  fix e d
  assume a: "req ''email'' = JStr e \<and> otpStore st (toLowerCase e) = Some d \<and> \<not> now ev > expiresAt d
       \<and> otpStore (snd (reset_password ev req st)) (toLowerCase e) \<noteq> Some d"
  then show "\<exists>h. bcrypt_hash ev (req ''newPassword'') = Inr h
              \<and> db_update ev (toLowerCase e) h = None"
    by (auto simp: reset_password_def Let_def split: if_splits sum.splits option.splits)
  from a show "fst (reset_password ev req st) =
             res_json [(''success'', JV (JBool True)),
                       (''message'', JV (JStr ''Password reset successful''))]"
    by (auto simp: reset_password_def Let_def split: if_splits sum.splits option.splits)
qed

theorem reset_password_update_failure_keeps_otp_witness:
  "reset_password (ev0\<lparr>db_update := \<lambda>e h. Some ''connection lost''\<rparr>)
      (mk_req [(''email'', JStr ''A@x.com''), (''otp'', JStr ''123456''),
               (''newPassword'', JStr ''newpass1'')]) (st_code 2000) =
     (fail_details 500 ''Failed to update password in database'' ''connection lost'', st_code 2000)
   \<and> otpStore (st_code 2000) ''a@x.com'' = Some \<lparr>otp = ''123456'', expiresAt = 2000\<rparr>
   \<and> otpStore (snd (reset_password ev0
        (mk_req [(''email'', JStr ''A@x.com''), (''otp'', JStr ''123456''),
                 (''newPassword'', JStr ''newpass1'')]) (st_code 2000))) ''a@x.com'' = None
   \<and> fst (reset_password ev0
        (mk_req [(''email'', JStr ''A@x.com''), (''otp'', JStr ''123456''),
                 (''newPassword'', JStr ''newpass1'')]) (st_code 2000)) =
       res_json [(''success'', JV (JBool True)),
                 (''message'', JV (JStr ''Password reset successful''))]"
proof -
  let ?req = "mk_req [(''email'', JStr ''A@x.com''), (''otp'', JStr ''123456''),
               (''newPassword'', JStr ''newpass1'')]"
  let ?bad = "ev0\<lparr>db_update := \<lambda>e h. Some ''connection lost''\<rparr>"
  have gone: "otpStore (snd (reset_password ev0 ?req (st_code 2000))) ''a@x.com'' = None"
    by (simp add: reset_password_def mk_req_def st_code_def ev0_def lower_ann)
  have a: "reset_password ?bad ?req (st_code 2000) =
     (fail_details 500 ''Failed to update password in database'' ''connection lost'', st_code 2000)"
    using reset_password_update_failure_keeps_otp [of ?req "st_code 2000" ?bad,
        THEN conjunct1, rule_format,
        of "''A@x.com''" "\<lparr>otp = ''123456'', expiresAt = 2000\<rparr>" ann "''$2a$12$fresh''"
           "''connection lost''"]
    by (simp add: mk_req_def st_code_def ev0_def lower_ann)
  have b: "fst (reset_password ev0 ?req (st_code 2000)) =
       res_json [(''success'', JV (JBool True)),
                 (''message'', JV (JStr ''Password reset successful''))]"
    using reset_password_update_failure_keeps_otp [of ?req "st_code 2000" ev0,
        THEN conjunct2, rule_format,
        of "''A@x.com''" "\<lparr>otp = ''123456'', expiresAt = 2000\<rparr>"] gone
    by (simp add: mk_req_def st_code_def ev0_def lower_ann)
  have c: "otpStore (st_code 2000) ''a@x.com'' = Some \<lparr>otp = ''123456'', expiresAt = 2000\<rparr>"
    by (simp add: st_code_def)
  from a b c gone show ?thesis by blast
qed

section \<open>Expired entries are never accepted\<close>

lemma verify_otp_expired:
  assumes "req ''email'' = JStr e" and "otpStore st (toLowerCase e) = Some d"
    and "expiresAt d < now ev"
  shows "fst (verify_otp ev req st) = fail 400 ''Email and OTP are required''
       \<or> fst (verify_otp ev req st) = fail 400 ''OTP has expired. Please request a new one.''"
  using assms by (auto simp: verify_otp_def Let_def)

lemma reset_password_expired:
  assumes "req ''email'' = JStr e" and "otpStore st (toLowerCase e) = Some d"
    and "expiresAt d < now ev"
  shows "fst (reset_password ev req st) = fail 400 ''Email, OTP, and new password are required''
       \<or> fst (reset_password ev req st) = fail 400 ''Invalid OTP''
       \<or> fst (reset_password ev req st) = fail 400 ''OTP has expired''"
proof (cases "truthy (req ''otp'')")
  case True
  then obtain s where "js_toString (req ''otp'') = Inr s"
    using truthy_toString by blast
  with assms show ?thesis by (auto simp: reset_password_def Let_def)
next
  case False
  then show ?thesis by (auto simp: reset_password_def Let_def)
qed

lemma validate_session_expired:
  assumes "req ''sessionId'' = JStr sid" and "sessions st sid = Some s"
    and "expires s < now ev"
  shows "fst (validate_session ev req st) = fail 400 ''Session ID required''
       \<or> fst (validate_session ev req st) = fail 401 ''Session expired''"
  using assms by (auto simp: validate_session_def map_get_def Let_def)

lemma fail_not_ok: "status (fail 400 m) \<noteq> 200" "status (fail 401 m) \<noteq> 200"
  "\<not> succeeded (fail c m)"
  by (simp_all add: fail_def succeeded_def)

text \<open>
  C4. Whatever states the stores are in (the sweep having run or not), a request that
  names an OTP entry or a session whose expiry lies before \<open>now\<close> is never answered with
  success by verify-otp, reset-password or validate-session: the status is not 200 and
  the body does not carry \<^verbatim>\<open>success: true\<close>.
\<close>

theorem expired_never_valid:
  "(\<forall>e d. req ''email'' = JStr e \<and> otpStore st (toLowerCase e) = Some d \<and> expiresAt d < now ev
       \<longrightarrow> status (fst (verify_otp ev req st)) \<noteq> 200
         \<and> \<not> succeeded (fst (verify_otp ev req st)))
   \<and> (\<forall>e d. req ''email'' = JStr e \<and> otpStore st (toLowerCase e) = Some d \<and> expiresAt d < now ev
       \<longrightarrow> status (fst (reset_password ev req st)) \<noteq> 200
         \<and> \<not> succeeded (fst (reset_password ev req st)))
   \<and> (\<forall>sid s. req ''sessionId'' = JStr sid \<and> sessions st sid = Some s \<and> expires s < now ev
       \<longrightarrow> status (fst (validate_session ev req st)) \<noteq> 200
         \<and> \<not> succeeded (fst (validate_session ev req st)))"
proof (intro conjI allI impI)
  fix e d
  assume a: "req ''email'' = JStr e \<and> otpStore st (toLowerCase e) = Some d \<and> expiresAt d < now ev"
  from a have v: "fst (verify_otp ev req st) = fail 400 ''Email and OTP are required''
       \<or> fst (verify_otp ev req st) = fail 400 ''OTP has expired. Please request a new one.''"
    using verify_otp_expired by blast
  from v show "status (fst (verify_otp ev req st)) \<noteq> 200"
    using fail_not_ok(1) by metis
  from v show "\<not> succeeded (fst (verify_otp ev req st))"
    using fail_not_ok(3) by metis
  from a have r: "fst (reset_password ev req st) = fail 400 ''Email, OTP, and new password are required''
       \<or> fst (reset_password ev req st) = fail 400 ''Invalid OTP''
       \<or> fst (reset_password ev req st) = fail 400 ''OTP has expired''"
    using reset_password_expired by blast
  from r show "status (fst (reset_password ev req st)) \<noteq> 200"
    using fail_not_ok(1) by metis
  from r show "\<not> succeeded (fst (reset_password ev req st))"
    using fail_not_ok(3) by metis
next
  fix sid s
  assume a: "req ''sessionId'' = JStr sid \<and> sessions st sid = Some s \<and> expires s < now ev"
  then have v: "fst (validate_session ev req st) = fail 400 ''Session ID required''
       \<or> fst (validate_session ev req st) = fail 401 ''Session expired''"
    using validate_session_expired by blast
  from v show "status (fst (validate_session ev req st)) \<noteq> 200"
    using fail_not_ok(1,2) by metis
  from v show "\<not> succeeded (fst (validate_session ev req st))"
    using fail_not_ok(3) by metis
qed

theorem expired_never_valid_witness:
  "status (fst (verify_otp ev0
       (mk_req [(''email'', JStr ''A@x.com''), (''otp'', JStr ''123456'')]) (st_code 999))) \<noteq> 200
   \<and> \<not> succeeded (fst (verify_otp ev0
       (mk_req [(''email'', JStr ''A@x.com''), (''otp'', JStr ''123456'')]) (st_code 999)))
   \<and> status (fst (reset_password ev0
       (mk_req [(''email'', JStr ''A@x.com''), (''otp'', JStr ''123456''),
                (''newPassword'', JStr ''newpass1'')]) (st_code 999))) \<noteq> 200
   \<and> \<not> succeeded (fst (reset_password ev0
       (mk_req [(''email'', JStr ''A@x.com''), (''otp'', JStr ''123456''),
                (''newPassword'', JStr ''newpass1'')]) (st_code 999)))
   \<and> status (fst (validate_session ev0
       (mk_req [(''sessionId'', JStr ''s1'')]) (st_session 999))) \<noteq> 200
   \<and> \<not> succeeded (fst (validate_session ev0
       (mk_req [(''sessionId'', JStr ''s1'')]) (st_session 999)))"
proof -
  have a: "status (fst (verify_otp ev0
       (mk_req [(''email'', JStr ''A@x.com''), (''otp'', JStr ''123456'')]) (st_code 999))) \<noteq> 200
   \<and> \<not> succeeded (fst (verify_otp ev0
       (mk_req [(''email'', JStr ''A@x.com''), (''otp'', JStr ''123456'')]) (st_code 999)))"
    using expired_never_valid [of "mk_req [(''email'', JStr ''A@x.com''), (''otp'', JStr ''123456'')]"
        "st_code 999" ev0, THEN conjunct1, rule_format,
        of "''A@x.com''" "\<lparr>otp = ''123456'', expiresAt = 999\<rparr>"]
    by (simp add: mk_req_def st_code_def ev0_def lower_ann)
  have b: "status (fst (reset_password ev0
       (mk_req [(''email'', JStr ''A@x.com''), (''otp'', JStr ''123456''),
                (''newPassword'', JStr ''newpass1'')]) (st_code 999))) \<noteq> 200
   \<and> \<not> succeeded (fst (reset_password ev0
       (mk_req [(''email'', JStr ''A@x.com''), (''otp'', JStr ''123456''),
                (''newPassword'', JStr ''newpass1'')]) (st_code 999)))"
    using expired_never_valid [of "mk_req [(''email'', JStr ''A@x.com''), (''otp'', JStr ''123456''),
                (''newPassword'', JStr ''newpass1'')]"
        "st_code 999" ev0, THEN conjunct2, THEN conjunct1, rule_format,
        of "''A@x.com''" "\<lparr>otp = ''123456'', expiresAt = 999\<rparr>"]
    by (simp add: mk_req_def st_code_def ev0_def lower_ann)
  have c: "status (fst (validate_session ev0
       (mk_req [(''sessionId'', JStr ''s1'')]) (st_session 999))) \<noteq> 200
   \<and> \<not> succeeded (fst (validate_session ev0
       (mk_req [(''sessionId'', JStr ''s1'')]) (st_session 999)))"
    using expired_never_valid [of "mk_req [(''sessionId'', JStr ''s1'')]"
        "st_session 999" ev0, THEN conjunct2, THEN conjunct2, rule_format,
        of "''s1''" "\<lparr>userId = 7, email = ''a@x.com'', expires = 999, role = ''user''\<rparr>"]
    by (simp add: mk_req_def st_session_def ev0_def)
  from a b c show ?thesis by blast
qed

section \<open>login: the answers to bad credentials\<close>

text \<open>
  A login whose email has no record (the lookup gives an error or no row) and a login
  whose email has a record but whose password the comparison finds not to match the
  stored hash are answered alike: status 401 with the message "Invalid email or
  password", and no session is created in either case.
\<close>

lemma login_mismatch_uniform:
  assumes "req1 ''email'' = JStr e1" and "e1 \<noteq> []" and "truthy (req1 ''password'')"
    and "sel_error (db_select ev1 (toLowerCase e1)) \<noteq> None
         \<or> sel_data (db_select ev1 (toLowerCase e1)) = None"
    and "req2 ''email'' = JStr e2" and "e2 \<noteq> []" and "truthy (req2 ''password'')"
    and "sel_error (db_select ev2 (toLowerCase e2)) = None"
    and "sel_data (db_select ev2 (toLowerCase e2)) = Some u"
    and "bcrypt_compare ev2 (req2 ''password'') (Password u) = Inr False"
  shows "login ev1 req1 st = (fail 401 ''Invalid email or password'', st)
       \<and> login ev2 req2 st = (fail 401 ''Invalid email or password'', st)
       \<and> fst (login ev1 req1 st) = fst (login ev2 req2 st)"
proof -
  have a: "login ev1 req1 st = (fail 401 ''Invalid email or password'', st)"
    using assms(1-4) by (auto simp: login_def Let_def split: option.splits)
  have b: "login ev2 req2 st = (fail 401 ''Invalid email or password'', st)"
    using assms(5-10) by (simp add: login_def)
  from a b show ?thesis by simp
qed

lemma bcryptjs_compare_rejects:
  "js_typeof p \<noteq> ''string'' \<Longrightarrow>
     bcryptjs_compare matches p h = Inl (''Illegal arguments: '' @ js_typeof p @ '', string'')"
  by (cases p) (simp_all add: bcryptjs_compare_def)

text \<open>
  C5 does not hold for every password. The handler only requires the password to be
  truthy, so a password that is not a string reaches the comparison, which then rejects.
  With one and the same such password, a login with an email that has no record is
  answered 401 "Invalid email or password", while a login with an email that has a record
  is answered 500 "Login failed" with the message of the rejection as details: the two
  answers differ, and the difference tells whether the email is registered.
\<close>

theorem login_rejected_compare_reveals_account:
  assumes "req1 ''email'' = JStr e1" and "e1 \<noteq> []"
    and "req2 ''email'' = JStr e2" and "e2 \<noteq> []"
    and "req1 ''password'' = p" and "req2 ''password'' = p" and "truthy p"
    and "sel_error (db_select ev (toLowerCase e1)) \<noteq> None
         \<or> sel_data (db_select ev (toLowerCase e1)) = None"
    and "sel_error (db_select ev (toLowerCase e2)) = None"
    and "sel_data (db_select ev (toLowerCase e2)) = Some u"
    and "bcrypt_compare ev p (Password u) = Inl msg"
  shows "login ev req1 st = (fail 401 ''Invalid email or password'', st)
       \<and> login ev req2 st = (fail_details 500 ''Login failed'' msg, st)
       \<and> fst (login ev req1 st) \<noteq> fst (login ev req2 st)"
proof -
  have a: "login ev req1 st = (fail 401 ''Invalid email or password'', st)"
    using assms(1,2,5,7,8) by (auto simp: login_def Let_def split: option.splits)
  have b: "login ev req2 st = (fail_details 500 ''Login failed'' msg, st)"
    using assms(3,4,6,7,9,10,11) by (simp add: login_def)
  have "fail 401 ''Invalid email or password'' \<noteq> fail_details 500 ''Login failed'' msg"
    by (simp add: fail_def fail_details_def)
  with a b show ?thesis by simp
qed

theorem login_rejected_compare_reveals_account_witness:
  "login ev_bcryptjs
      (mk_req [(''email'', JStr ''nobody@x.com''), (''password'', JNum 12345)]) st_empty =
     (fail 401 ''Invalid email or password'', st_empty)
   \<and> login ev_bcryptjs
      (mk_req [(''email'', JStr ''A@x.com''), (''password'', JNum 12345)]) st_empty =
     (fail_details 500 ''Login failed'' ''Illegal arguments: number, string'', st_empty)
   \<and> fst (login ev_bcryptjs
      (mk_req [(''email'', JStr ''nobody@x.com''), (''password'', JNum 12345)]) st_empty) \<noteq>
     fst (login ev_bcryptjs
      (mk_req [(''email'', JStr ''A@x.com''), (''password'', JNum 12345)]) st_empty)"
proof -
  let ?req1 = "mk_req [(''email'', JStr ''nobody@x.com''), (''password'', JNum 12345)]"
  let ?req2 = "mk_req [(''email'', JStr ''A@x.com''), (''password'', JNum 12345)]"
  have k: "toLowerCase ''nobody@x.com'' = ''nobody@x.com''"
    by (simp add: toLowerCase_def lower_char_def)
  have h1: "?req1 ''email'' = JStr ''nobody@x.com''" and h2: "''nobody@x.com'' \<noteq> []"
    and h3: "?req2 ''email'' = JStr ''A@x.com''" and h4: "''A@x.com'' \<noteq> []"
    and h5: "?req1 ''password'' = JNum 12345" and h6: "?req2 ''password'' = JNum 12345"
    and h7: "truthy (JNum 12345)"
    by (simp_all add: mk_req_def)
  have h8: "sel_error (db_select ev_bcryptjs (toLowerCase ''nobody@x.com'')) \<noteq> None
         \<or> sel_data (db_select ev_bcryptjs (toLowerCase ''nobody@x.com'')) = None"
    and h9: "sel_error (db_select ev_bcryptjs (toLowerCase ''A@x.com'')) = None"
    and h10: "sel_data (db_select ev_bcryptjs (toLowerCase ''A@x.com'')) = Some ann"
    by (simp_all add: ev_bcryptjs_def ev0_def k lower_ann)
  have h11: "bcrypt_compare ev_bcryptjs (JNum 12345) (Password ann) =
      Inl ''Illegal arguments: number, string''"
    by (simp add: ev_bcryptjs_def ev0_def bcryptjs_compare_def)
  show ?thesis
    by (rule login_rejected_compare_reveals_account
        [where ?req1.0 = ?req1 and ?e1.0 = "''nobody@x.com''" and ?req2.0 = ?req2
           and ?e2.0 = "''A@x.com''" and p = "JNum 12345" and ev = ev_bcryptjs and u = ann
           and msg = "''Illegal arguments: number, string''" and st = st_empty,
         OF h1 h2 h3 h4 h5 h6 h7 h8 h9 h10 h11])
qed

section \<open>logout\<close>

lemma map_delete_twice: "map_delete (map_delete m k) k = map_delete m k"
  by (cases k) (simp_all add: map_delete_def)

lemma map_get_delete: "map_get (map_delete m k) k = None"
  by (cases k) (simp_all add: map_get_def map_delete_def)

lemma map_delete_keeps_absent: "m sid = None \<Longrightarrow> map_delete m k sid = None"
  by (cases k) (simp_all add: map_delete_def)

lemma login_sessions:
  "sessions (snd (login ev req st)) = sessions st
   \<or> (\<exists>s. sessions (snd (login ev req st)) = (sessions st)(generateSessionId ev \<mapsto> s))"
  by (auto simp: login_def Let_def split: sum.splits option.splits)

lemma validate_session_sessions:
  "sessions (snd (validate_session ev req st)) = sessions st
   \<or> sessions (snd (validate_session ev req st)) = map_delete (sessions st) (req ''sessionId'')"
  by (simp add: validate_session_def Let_def split: option.splits)

lemma logout_sessions:
  "sessions (snd (logout ev req st)) =
     (if truthy (req ''sessionId'') then map_delete (sessions st) (req ''sessionId'')
      else sessions st)"
  by (simp add: logout_def Let_def)

lemma send_otp_sessions: "sessions (snd (send_otp ev req st)) = sessions st"
  by (simp add: send_otp_def Let_def split: sum.splits option.splits)

lemma verify_otp_sessions: "sessions (snd (verify_otp ev req st)) = sessions st"
  by (simp add: verify_otp_def Let_def split: sum.splits option.splits)

lemma reset_password_sessions: "sessions (snd (reset_password ev req st)) = sessions st"
  by (simp add: reset_password_def Let_def split: sum.splits option.splits)

lemma sweep_keeps_absent: "sessions st sid = None \<Longrightarrow> sessions (sweep t st) sid = None"
  by (simp add: sweep_def)

lemma handle_keeps_absent:
  assumes "sessions st sid = None" and "\<not> mints sid (ev, r)"
  shows "sessions (handle ev r st) sid = None"
proof (cases r)
  case (Login req)
  with assms(2) have "generateSessionId ev \<noteq> sid" by simp
  with assms(1) login_sessions [of ev req st] Login show ?thesis by auto
next
  case (ValidateSession req)
  with assms(1) validate_session_sessions [of ev req st] show ?thesis
    by (auto simp: map_delete_keeps_absent)
next
  case (Logout req)
  with assms(1) show ?thesis
    by (simp add: logout_sessions map_delete_keeps_absent)
next
  case (SendOtp req)
  with assms(1) show ?thesis by (simp add: send_otp_sessions)
next
  case (VerifyOtp req)
  with assms(1) show ?thesis by (simp add: verify_otp_sessions)
next
  case (ResetPassword req)
  with assms(1) show ?thesis by (simp add: reset_password_sessions)
next
  case Sweep
  with assms(1) show ?thesis by (simp add: sweep_keeps_absent)
qed

lemma run_keeps_absent:
  "sessions st sid = None \<Longrightarrow> \<forall>x\<in>set rs. \<not> mints sid x \<Longrightarrow> sessions (run rs st) sid = None"
proof (induction rs arbitrary: st)
  case Nil
  then show ?case by simp
next
  case (Cons x rs)
  obtain ev r where x: "x = (ev, r)" by (cases x)
  from Cons.prems have "sessions (handle ev r st) sid = None"
    using handle_keeps_absent x by simp
  with Cons show ?case using x by simp
qed

lemma validate_session_absent:
  assumes "map_get (sessions st) (req ''sessionId'') = None"
  shows "fst (validate_session ev req st) =
           (if truthy (req ''sessionId'') then fail 401 ''Invalid session''
            else fail 400 ''Session ID required'')"
  using assms by (simp add: validate_session_def)

text \<open>
  C9. logout answers success (status 200) for every request, whatever its \<open>sessionId\<close>
  field holds: a live session, one already destroyed, an unknown id, or nothing. A second
  logout gives the same answer and leaves the stores as the first left them. After a
  logout of an id, every validate-session for that id, after any sequence of further
  requests and sweeps in which no login generates that very id again, is answered as
  invalid (401 "Invalid session"; 400 "Session ID required" when the id is absent).
\<close>

theorem logout_idempotent:
  "fst (logout ev req st) =
     res_json [(''success'', JV (JBool True)),
               (''message'', JV (JStr ''Logged out successfully''))]
   \<and> logout ev' req (snd (logout ev req st)) = logout ev req st
   \<and> (\<forall>rs ev2 req2.
        req2 ''sessionId'' = req ''sessionId''
        \<and> (\<forall>x\<in>set rs. \<forall>sid. req ''sessionId'' = JStr sid \<longrightarrow> \<not> mints sid x)
      \<longrightarrow> fst (validate_session ev2 req2 (run rs (snd (logout ev req st)))) =
            (if truthy (req ''sessionId'') then fail 401 ''Invalid session''
             else fail 400 ''Session ID required''))"
proof (intro conjI allI impI)
  show "fst (logout ev req st) =
     res_json [(''success'', JV (JBool True)),
               (''message'', JV (JStr ''Logged out successfully''))]"
    by (simp add: logout_def Let_def)
  show "logout ev' req (snd (logout ev req st)) = logout ev req st"
    by (simp add: logout_def Let_def map_delete_twice)
next
  fix rs ev2 req2
  assume a: "req2 ''sessionId'' = req ''sessionId''
        \<and> (\<forall>x\<in>set rs. \<forall>sid. req ''sessionId'' = JStr sid \<longrightarrow> \<not> mints sid x)"
  let ?st = "run rs (snd (logout ev req st))"
  show "fst (validate_session ev2 req2 ?st) =
            (if truthy (req ''sessionId'') then fail 401 ''Invalid session''
             else fail 400 ''Session ID required'')"
  proof (cases "truthy (req ''sessionId'')")
    case False
    with a show ?thesis by (simp add: validate_session_def)
  next
    case True
    have "map_get (sessions ?st) (req ''sessionId'') = None"
    proof (cases "req ''sessionId''")
      case (JStr sid)
      have "sessions (snd (logout ev req st)) sid = None"
        using True JStr by (simp add: logout_sessions map_delete_def)
      moreover have "\<forall>x\<in>set rs. \<not> mints sid x"
        using a JStr by simp
      ultimately have "sessions ?st sid = None"
        by (rule run_keeps_absent)
      with JStr show ?thesis by (simp add: map_get_def)
    qed (simp_all add: map_get_def)
    with a True show ?thesis
      using validate_session_absent [of ?st req2 ev2] by simp
  qed
qed

theorem logout_idempotent_witness:
  "fst (logout ev0 (mk_req [(''sessionId'', JStr ''s1'')]) (st_session 5000)) =
     res_json [(''success'', JV (JBool True)),
               (''message'', JV (JStr ''Logged out successfully''))]
   \<and> logout ev0 (mk_req [(''sessionId'', JStr ''s1'')])
        (snd (logout ev0 (mk_req [(''sessionId'', JStr ''s1'')]) (st_session 5000))) =
      logout ev0 (mk_req [(''sessionId'', JStr ''s1'')]) (st_session 5000)
   \<and> fst (validate_session ev0 (mk_req [(''sessionId'', JStr ''s1'')])
        (run [(ev0, ValidateSession (mk_req [(''sessionId'', JStr ''s1'')])),
              (ev0, Login (mk_req [(''email'', JStr ''A@x.com''), (''password'', JStr ''secret1'')])),
              (ev0, Sweep)]
           (snd (logout ev0 (mk_req [(''sessionId'', JStr ''s1'')]) (st_session 5000))))) =
      fail 401 ''Invalid session''"
proof -
  let ?req = "mk_req [(''sessionId'', JStr ''s1'')]"
  let ?rs = "[(ev0, ValidateSession (mk_req [(''sessionId'', JStr ''s1'')])),
              (ev0, Login (mk_req [(''email'', JStr ''A@x.com''), (''password'', JStr ''secret1'')])),
              (ev0, Sweep)]"
  note T = logout_idempotent [of ev0 ?req "st_session 5000" ev0]
  have c: "fst (validate_session ev0 ?req (run ?rs (snd (logout ev0 ?req (st_session 5000))))) =
      fail 401 ''Invalid session''"
    using T [THEN conjunct2, THEN conjunct2, rule_format, of ?req ?rs ev0]
    by (simp add: mk_req_def generateSessionId_def)
  from T c show ?thesis by blast
qed

section \<open>send-otp\<close>

lemma generateOtp_ev0: "generateOtp ev0 = ''100000''"
  by (simp add: generateOtp_def ev0_def dec_int_def dec_nat.simps)

lemma generateOtp_half: "generateOtp (ev0\<lparr>random := 1 / 2\<rparr>) = ''550000''"
  by (simp add: generateOtp_def ev0_def dec_int_def dec_nat.simps)

lemma send_otp_found:
  assumes "req ''email'' = JStr e" and "e \<noteq> []"
    and "sel_error (db_select ev (toLowerCase e)) = None"
    and "sel_data (db_select ev (toLowerCase e)) = Some u"
  shows "snd (send_otp ev req st) =
           st\<lparr>otpStore := (otpStore st)(toLowerCase e \<mapsto>
                \<lparr>otp = generateOtp ev, expiresAt = now ev + 600000\<rparr>)\<rparr>"
  using assms
  by (simp add: send_otp_def Let_def OTP_EXPIRY_MINUTES_def split: option.splits)

lemma send_otp_no_code:
  assumes "\<not> (\<exists>e u. req ''email'' = JStr e \<and> e \<noteq> []
              \<and> sel_error (db_select ev (toLowerCase e)) = None
              \<and> sel_data (db_select ev (toLowerCase e)) = Some u
              \<and> (\<not> transporter ev \<or> sendMail ev (JStr e) (generateOtp ev) \<noteq> None))"
  shows "map_of (body (fst (send_otp ev req st))) ''otp'' = None"
proof (cases "req ''email''")
  case (JStr e)
  with assms show ?thesis
    by (auto simp: send_otp_def Let_def fail_def fail_details_def res_json_def
        split: option.splits)
qed (simp_all add: send_otp_def Let_def fail_def fail_details_def)

text \<open>
  C7. Once send-otp has found the account, a missing transporter or a \<^verbatim>\<open>sendMail\<close> that
  throws does not fail the request: the code is stored and the answer is the 200 success
  of the mock channel carrying the code. The answer carries an \<^verbatim>\<open>otp\<close> field in exactly
  those runs.
\<close>

theorem send_otp_fallback:
  "(\<forall>e u. req ''email'' = JStr e \<and> e \<noteq> []
        \<and> sel_error (db_select ev (toLowerCase e)) = None
        \<and> sel_data (db_select ev (toLowerCase e)) = Some u
        \<and> (\<not> transporter ev \<or> sendMail ev (JStr e) (generateOtp ev) \<noteq> None)
      \<longrightarrow> send_otp ev req st =
            (res_json
               [(''success'', JV (JBool True)),
                (''message'', JV (JStr ''OTP generated (mock mode)'')),
                (''otp'', JV (JStr (generateOtp ev))),
                (''service'', JV (JStr ''Mock'')),
                (''expiresIn'', JV (JStr ''10 minutes'')),
                (''note'', JV (JStr
                   ''Email not configured - check this response for your OTP''))],
             st\<lparr>otpStore := (otpStore st)(toLowerCase e \<mapsto>
                  \<lparr>otp = generateOtp ev, expiresAt = now ev + 600000\<rparr>)\<rparr>))
   \<and> ((map_of (body (fst (send_otp ev req st))) ''otp'' \<noteq> None) =
        (\<exists>e u. req ''email'' = JStr e \<and> e \<noteq> []
              \<and> sel_error (db_select ev (toLowerCase e)) = None
              \<and> sel_data (db_select ev (toLowerCase e)) = Some u
              \<and> (\<not> transporter ev \<or> sendMail ev (JStr e) (generateOtp ev) \<noteq> None)))"
proof -
  have ten: "expiresIn = ''10 minutes''"
    by (simp add: expiresIn_def OTP_EXPIRY_MINUTES_def dec_int_def dec_nat.simps)
  have mock: "send_otp ev req st =
            (res_json
               [(''success'', JV (JBool True)),
                (''message'', JV (JStr ''OTP generated (mock mode)'')),
                (''otp'', JV (JStr (generateOtp ev))),
                (''service'', JV (JStr ''Mock'')),
                (''expiresIn'', JV (JStr ''10 minutes'')),
                (''note'', JV (JStr
                   ''Email not configured - check this response for your OTP''))],
             st\<lparr>otpStore := (otpStore st)(toLowerCase e \<mapsto>
                  \<lparr>otp = generateOtp ev, expiresAt = now ev + 600000\<rparr>)\<rparr>)"
    if "req ''email'' = JStr e \<and> e \<noteq> []
        \<and> sel_error (db_select ev (toLowerCase e)) = None
        \<and> sel_data (db_select ev (toLowerCase e)) = Some u
        \<and> (\<not> transporter ev \<or> sendMail ev (JStr e) (generateOtp ev) \<noteq> None)" for e u
    using that
    by (auto simp: send_otp_def Let_def OTP_EXPIRY_MINUTES_def ten split: option.splits)
  have pos: "map_of (body (fst (send_otp ev req st))) ''otp'' \<noteq> None"
    if "\<exists>e u. req ''email'' = JStr e \<and> e \<noteq> []
        \<and> sel_error (db_select ev (toLowerCase e)) = None
        \<and> sel_data (db_select ev (toLowerCase e)) = Some u
        \<and> (\<not> transporter ev \<or> sendMail ev (JStr e) (generateOtp ev) \<noteq> None)"
  proof -
    from that obtain e u where "req ''email'' = JStr e \<and> e \<noteq> []
        \<and> sel_error (db_select ev (toLowerCase e)) = None
        \<and> sel_data (db_select ev (toLowerCase e)) = Some u
        \<and> (\<not> transporter ev \<or> sendMail ev (JStr e) (generateOtp ev) \<noteq> None)"
      by blast
    from mock [OF this] show ?thesis by (simp add: res_json_def)
  qed
  show ?thesis
  proof (intro conjI allI impI iffI)
    fix e u
    assume "req ''email'' = JStr e \<and> e \<noteq> []
        \<and> sel_error (db_select ev (toLowerCase e)) = None
        \<and> sel_data (db_select ev (toLowerCase e)) = Some u
        \<and> (\<not> transporter ev \<or> sendMail ev (JStr e) (generateOtp ev) \<noteq> None)"
    then show "send_otp ev req st =
            (res_json
               [(''success'', JV (JBool True)),
                (''message'', JV (JStr ''OTP generated (mock mode)'')),
                (''otp'', JV (JStr (generateOtp ev))),
                (''service'', JV (JStr ''Mock'')),
                (''expiresIn'', JV (JStr ''10 minutes'')),
                (''note'', JV (JStr
                   ''Email not configured - check this response for your OTP''))],
             st\<lparr>otpStore := (otpStore st)(toLowerCase e \<mapsto>
                  \<lparr>otp = generateOtp ev, expiresAt = now ev + 600000\<rparr>)\<rparr>)"
      by (rule mock)
  next
    assume "map_of (body (fst (send_otp ev req st))) ''otp'' \<noteq> None"
    then show "\<exists>e u. req ''email'' = JStr e \<and> e \<noteq> []
              \<and> sel_error (db_select ev (toLowerCase e)) = None
              \<and> sel_data (db_select ev (toLowerCase e)) = Some u
              \<and> (\<not> transporter ev \<or> sendMail ev (JStr e) (generateOtp ev) \<noteq> None)"
      using send_otp_no_code [of req ev st] by argo
  next
    assume "\<exists>e u. req ''email'' = JStr e \<and> e \<noteq> []
              \<and> sel_error (db_select ev (toLowerCase e)) = None
              \<and> sel_data (db_select ev (toLowerCase e)) = Some u
              \<and> (\<not> transporter ev \<or> sendMail ev (JStr e) (generateOtp ev) \<noteq> None)"
    then show "map_of (body (fst (send_otp ev req st))) ''otp'' \<noteq> None"
      by (rule pos)
  qed
qed

theorem send_otp_fallback_witness:
  "send_otp ev0 (mk_req [(''email'', JStr ''A@x.com'')]) st_empty =
     (res_json
        [(''success'', JV (JBool True)),
         (''message'', JV (JStr ''OTP generated (mock mode)'')),
         (''otp'', JV (JStr ''100000'')),
         (''service'', JV (JStr ''Mock'')),
         (''expiresIn'', JV (JStr ''10 minutes'')),
         (''note'', JV (JStr ''Email not configured - check this response for your OTP''))],
      st_empty\<lparr>otpStore := (otpStore st_empty)(''a@x.com'' \<mapsto>
           \<lparr>otp = ''100000'', expiresAt = 601000\<rparr>)\<rparr>)
   \<and> send_otp (ev0\<lparr>transporter := True, sendMail := \<lambda>to code. Some ''connection refused''\<rparr>)
        (mk_req [(''email'', JStr ''A@x.com'')]) st_empty =
     (res_json
        [(''success'', JV (JBool True)),
         (''message'', JV (JStr ''OTP generated (mock mode)'')),
         (''otp'', JV (JStr ''100000'')),
         (''service'', JV (JStr ''Mock'')),
         (''expiresIn'', JV (JStr ''10 minutes'')),
         (''note'', JV (JStr ''Email not configured - check this response for your OTP''))],
      st_empty\<lparr>otpStore := (otpStore st_empty)(''a@x.com'' \<mapsto>
           \<lparr>otp = ''100000'', expiresAt = 601000\<rparr>)\<rparr>)
   \<and> map_of (body (fst (send_otp (ev0\<lparr>transporter := True\<rparr>)
        (mk_req [(''email'', JStr ''A@x.com'')]) st_empty))) ''otp'' = None"
proof -
  let ?req = "mk_req [(''email'', JStr ''A@x.com'')]"
  let ?bad = "ev0\<lparr>transporter := True, sendMail := \<lambda>to code. Some ''connection refused''\<rparr>"
  have g: "generateOtp ?bad = ''100000''" "generateOtp (ev0\<lparr>transporter := True\<rparr>) = ''100000''"
    using generateOtp_ev0 by (simp_all add: generateOtp_def)
  have a: "send_otp ev0 ?req st_empty =
     (res_json
        [(''success'', JV (JBool True)),
         (''message'', JV (JStr ''OTP generated (mock mode)'')),
         (''otp'', JV (JStr ''100000'')),
         (''service'', JV (JStr ''Mock'')),
         (''expiresIn'', JV (JStr ''10 minutes'')),
         (''note'', JV (JStr ''Email not configured - check this response for your OTP''))],
      st_empty\<lparr>otpStore := (otpStore st_empty)(''a@x.com'' \<mapsto>
           \<lparr>otp = ''100000'', expiresAt = 601000\<rparr>)\<rparr>)"
    using send_otp_fallback [of ?req ev0 st_empty, THEN conjunct1, rule_format,
        of "''A@x.com''" ann]
    by (simp add: mk_req_def lower_ann generateOtp_ev0) (simp add: ev0_def)
  have b: "send_otp ?bad ?req st_empty =
     (res_json
        [(''success'', JV (JBool True)),
         (''message'', JV (JStr ''OTP generated (mock mode)'')),
         (''otp'', JV (JStr ''100000'')),
         (''service'', JV (JStr ''Mock'')),
         (''expiresIn'', JV (JStr ''10 minutes'')),
         (''note'', JV (JStr ''Email not configured - check this response for your OTP''))],
      st_empty\<lparr>otpStore := (otpStore st_empty)(''a@x.com'' \<mapsto>
           \<lparr>otp = ''100000'', expiresAt = 601000\<rparr>)\<rparr>)"
    using send_otp_fallback [of ?req ?bad st_empty, THEN conjunct1, rule_format,
        of "''A@x.com''" ann]
    by (simp add: mk_req_def lower_ann g) (simp add: ev0_def)
  have c: "map_of (body (fst (send_otp (ev0\<lparr>transporter := True\<rparr>) ?req st_empty))) ''otp'' = None"
    using send_otp_fallback [of ?req "ev0\<lparr>transporter := True\<rparr>" st_empty, THEN conjunct2]
    by (simp add: mk_req_def lower_ann g) (simp add: ev0_def)
  from a b c show ?thesis by blast
qed

section \<open>Issuing twice for one email\<close>

lemma verify_otp_mismatch_fails:
  assumes "req ''email'' = JStr e" and "otpStore st (toLowerCase e) = Some d"
    and "js_toString (req ''otp'') = Inr c" and "c \<noteq> otp d"
  shows "status (fst (verify_otp ev req st)) = 400 \<and> \<not> succeeded (fst (verify_otp ev req st))"
  using assms by (auto simp: verify_otp_def Let_def fail_def succeeded_def)

text \<open>
  C6, as stated, fails: the two codes are drawn independently, and when the second draw
  gives the code of the first, the first code is accepted after the second issue.
\<close>

theorem second_otp_may_repeat_first:
  "map_of (body (fst (send_otp ev0 (mk_req [(''email'', JStr ''a@x.com'')]) st_empty))) ''otp'' =
     Some (JV (JStr ''100000''))
   \<and> fst (verify_otp ev0 (mk_req [(''email'', JStr ''a@x.com''), (''otp'', JStr ''100000'')])
          (snd (send_otp ev0 (mk_req [(''email'', JStr ''a@x.com'')])
             (snd (send_otp ev0 (mk_req [(''email'', JStr ''a@x.com'')]) st_empty))))) =
       res_json [(''success'', JV (JBool True)),
                 (''message'', JV (JStr ''OTP verified successfully''))]"
proof -
  have k: "toLowerCase ''a@x.com'' = ''a@x.com''"
    by (simp add: toLowerCase_def lower_char_def)
  have e: "db_select ev0 ''a@x.com'' = \<lparr>sel_data = Some ann, sel_error = None\<rparr>"
    "transporter ev0 = False" "now ev0 = 1000"
    by (simp_all add: ev0_def)
  have s: "send_otp ev0 (mk_req [(''email'', JStr ''a@x.com'')]) st =
      (res_json
        [(''success'', JV (JBool True)),
         (''message'', JV (JStr ''OTP generated (mock mode)'')),
         (''otp'', JV (JStr ''100000'')),
         (''service'', JV (JStr ''Mock'')),
         (''expiresIn'', JV (JStr expiresIn)),
         (''note'', JV (JStr ''Email not configured - check this response for your OTP''))],
       st\<lparr>otpStore := (otpStore st)(''a@x.com'' \<mapsto> \<lparr>otp = ''100000'', expiresAt = 601000\<rparr>)\<rparr>)"
    for st
    by (simp add: send_otp_def Let_def mk_req_def k generateOtp_ev0 OTP_EXPIRY_MINUTES_def e)
  show ?thesis
    by (simp add: s verify_otp_def mk_req_def k e res_json_def)
qed

text \<open>
  C6, amended. Two send-otp requests in sequence for emails with the same lower-cased
  form (the account being found both times) leave the store as it was before, except
  that the key of the email holds exactly the entry of the second issue: its code and
  expiry \<open>now + 10 min\<close>. Whenever the first code differs from the second, a verify-otp
  submitting the first code is rejected (status 400, no success) at any later time.
\<close>

theorem send_otp_twice:
  assumes "req1 ''email'' = JStr e1" and "e1 \<noteq> []"
    and "sel_error (db_select ev1 (toLowerCase e1)) = None"
    and "sel_data (db_select ev1 (toLowerCase e1)) = Some u1"
    and "req2 ''email'' = JStr e2" and "e2 \<noteq> []"
    and "sel_error (db_select ev2 (toLowerCase e2)) = None"
    and "sel_data (db_select ev2 (toLowerCase e2)) = Some u2"
    and "toLowerCase e1 = toLowerCase e2"
  shows "otpStore (snd (send_otp ev2 req2 (snd (send_otp ev1 req1 st)))) =
           (otpStore st)(toLowerCase e1 \<mapsto>
              \<lparr>otp = generateOtp ev2, expiresAt = now ev2 + 600000\<rparr>)
       \<and> (generateOtp ev1 \<noteq> generateOtp ev2 \<longrightarrow>
            (\<forall>ev3 req3 e3.
               req3 ''email'' = JStr e3 \<and> toLowerCase e3 = toLowerCase e1
               \<and> js_toString (req3 ''otp'') = Inr (generateOtp ev1)
             \<longrightarrow> status (fst (verify_otp ev3 req3
                        (snd (send_otp ev2 req2 (snd (send_otp ev1 req1 st)))))) = 400
               \<and> \<not> succeeded (fst (verify_otp ev3 req3
                        (snd (send_otp ev2 req2 (snd (send_otp ev1 req1 st))))))))"
proof -
  let ?st2 = "snd (send_otp ev2 req2 (snd (send_otp ev1 req1 st)))"
  have st2: "otpStore ?st2 =
           (otpStore st)(toLowerCase e1 \<mapsto>
              \<lparr>otp = generateOtp ev2, expiresAt = now ev2 + 600000\<rparr>)"
    using assms
    by (simp add: send_otp_found [of req1 e1 ev1 u1] send_otp_found [of req2 e2 ev2 u2])
  have "status (fst (verify_otp ev3 req3 ?st2)) = 400
        \<and> \<not> succeeded (fst (verify_otp ev3 req3 ?st2))"
    if "generateOtp ev1 \<noteq> generateOtp ev2"
      and "req3 ''email'' = JStr e3 \<and> toLowerCase e3 = toLowerCase e1
           \<and> js_toString (req3 ''otp'') = Inr (generateOtp ev1)"
    for ev3 req3 e3
  proof (rule verify_otp_mismatch_fails)
    show "req3 ''email'' = JStr e3" using that(2) by simp
    show "otpStore ?st2 (toLowerCase e3) =
           Some \<lparr>otp = generateOtp ev2, expiresAt = now ev2 + 600000\<rparr>"
      using that(2) by (simp add: st2)
    show "js_toString (req3 ''otp'') = Inr (generateOtp ev1)" using that(2) by simp
    show "generateOtp ev1 \<noteq> otp \<lparr>otp = generateOtp ev2, expiresAt = now ev2 + 600000\<rparr>"
      using that(1) by simp
  qed
  with st2 show ?thesis by blast
qed

theorem send_otp_twice_witness:
  "otpStore (snd (send_otp (ev0\<lparr>random := 1 / 2\<rparr>) (mk_req [(''email'', JStr ''a@x.com'')])
       (snd (send_otp ev0 (mk_req [(''email'', JStr ''A@x.com'')]) st_empty)))) =
     (otpStore st_empty)(''a@x.com'' \<mapsto> \<lparr>otp = ''550000'', expiresAt = 601000\<rparr>)
   \<and> status (fst (verify_otp ev0
        (mk_req [(''email'', JStr ''A@x.com''), (''otp'', JStr ''100000'')])
        (snd (send_otp (ev0\<lparr>random := 1 / 2\<rparr>) (mk_req [(''email'', JStr ''a@x.com'')])
           (snd (send_otp ev0 (mk_req [(''email'', JStr ''A@x.com'')]) st_empty)))))) = 400
   \<and> \<not> succeeded (fst (verify_otp ev0
        (mk_req [(''email'', JStr ''A@x.com''), (''otp'', JStr ''100000'')])
        (snd (send_otp (ev0\<lparr>random := 1 / 2\<rparr>) (mk_req [(''email'', JStr ''a@x.com'')])
           (snd (send_otp ev0 (mk_req [(''email'', JStr ''A@x.com'')]) st_empty))))))"
proof -
  let ?req1 = "mk_req [(''email'', JStr ''A@x.com'')]"
  let ?req2 = "mk_req [(''email'', JStr ''a@x.com'')]"
  let ?req3 = "mk_req [(''email'', JStr ''A@x.com''), (''otp'', JStr ''100000'')]"
  let ?ev2 = "ev0\<lparr>random := 1 / 2\<rparr>"
  have k: "toLowerCase ''a@x.com'' = ''a@x.com''"
    by (simp add: toLowerCase_def lower_char_def)
  have h1: "?req1 ''email'' = JStr ''A@x.com''" and h2: "''A@x.com'' \<noteq> []"
    and h5: "?req2 ''email'' = JStr ''a@x.com''" and h6: "''a@x.com'' \<noteq> []"
    by (simp_all add: mk_req_def)
  have h3: "sel_error (db_select ev0 (toLowerCase ''A@x.com'')) = None"
    and h4: "sel_data (db_select ev0 (toLowerCase ''A@x.com'')) = Some ann"
    and h7: "sel_error (db_select ?ev2 (toLowerCase ''a@x.com'')) = None"
    and h8: "sel_data (db_select ?ev2 (toLowerCase ''a@x.com'')) = Some ann"
    by (simp_all add: ev0_def k lower_ann)
  have h9: "toLowerCase ''A@x.com'' = toLowerCase ''a@x.com''"
    by (simp add: k lower_ann)
  note T = send_otp_twice [where ?req1.0 = ?req1 and ?e1.0 = "''A@x.com''" and ?ev1.0 = ev0
      and ?u1.0 = ann and ?req2.0 = ?req2 and ?e2.0 = "''a@x.com''" and ?ev2.0 = ?ev2
      and ?u2.0 = ann and st = st_empty, OF h1 h2 h3 h4 h5 h6 h7 h8 h9]
  have n: "now ?ev2 = 1000" by (simp add: ev0_def)
  have a: "otpStore (snd (send_otp ?ev2 ?req2 (snd (send_otp ev0 ?req1 st_empty)))) =
     (otpStore st_empty)(''a@x.com'' \<mapsto> \<lparr>otp = ''550000'', expiresAt = 601000\<rparr>)"
    using T [THEN conjunct1] by (simp add: lower_ann generateOtp_half n)
  have b: "status (fst (verify_otp ev0 ?req3
             (snd (send_otp ?ev2 ?req2 (snd (send_otp ev0 ?req1 st_empty)))))) = 400
   \<and> \<not> succeeded (fst (verify_otp ev0 ?req3
             (snd (send_otp ?ev2 ?req2 (snd (send_otp ev0 ?req1 st_empty))))))"
    using T [THEN conjunct2, rule_format, where ?ev3.0 = ev0 and ?req3.0 = ?req3
        and ?e3.0 = "''A@x.com''"]
    by (simp add: generateOtp_ev0 generateOtp_half mk_req_def)
  from a b show ?thesis by blast
qed

section \<open>Session creation\<close>

text \<open>
  A successful login stores, under the generated id, a session expiring 24 hours
  (86400000 ms) after the clock reading of the request, and reports that id and expiry.
\<close>

lemma login_creates_session:
  assumes "req ''email'' = JStr e" and "e \<noteq> []" and "truthy (req ''password'')"
    and "sel_error (db_select ev (toLowerCase e)) = None"
    and "sel_data (db_select ev (toLowerCase e)) = Some u"
    and "bcrypt_compare ev (req ''password'') (Password u) = Inr True"
  shows "sessions (snd (login ev req st)) =
           (sessions st)(generateSessionId ev \<mapsto>
              \<lparr>userId = uid u, email = toLowerCase e, expires = now ev + 86400000,
               role = user_role u\<rparr>)"
    and "map_of (body (fst (login ev req st))) ''sessionId'' = Some (JV (JStr (generateSessionId ev)))"
    and "map_of (body (fst (login ev req st))) ''expiresAt'' = Some (JV (JNum (now ev + 86400000)))"
  using assms by (simp_all add: login_def Let_def SESSION_EXPIRY_HOURS_def res_json_def)

lemma generateSessionId_suffix:
  "now ev1 = now ev2 \<Longrightarrow> random_suffix ev1 \<noteq> random_suffix ev2
     \<Longrightarrow> generateSessionId ev1 \<noteq> generateSessionId ev2"
  by (simp add: generateSessionId_def)

end
